theory Spec2Isabelle
  imports Complex_Main
begin

section \<open>Python values in the model\<close>

text \<open>
  Strings are Python \<open>str\<close> values over the code points 0 to 255, one \<^typ>\<open>char\<close> per code
  point. Python floats are modelled by exact rationals: rounding, infinities and NaN are
  outside the model. Exceptions are values of \<open>exn\<close>, carrying \<open>str(e)\<close>.
\<close>

datatype exn =
    ValueError string
  | KeyError string
  | TypeError string
  | AttributeError string
  | RuntimeError string
  | JSONDecodeError string
  | UnboundLocalError string
  | OtherError string
  | NonFinite string

text \<open>\<open>str.isspace\<close> on a single code point below 256.\<close>

definition is_space :: "char \<Rightarrow> bool" where
  "is_space c = (c \<in> set [CHR 0x09, CHR 0x0A, CHR 0x0B, CHR 0x0C, CHR 0x0D,
                            CHR 0x1C, CHR 0x1D, CHR 0x1E, CHR 0x1F, CHR 0x20,
                            CHR 0x85, CHR 0xA0])"

text \<open>\<open>str.strip()\<close>, \<open>str.lower()\<close>, \<open>str.startswith\<close>, \<open>str.endswith\<close>, \<open>sub in s\<close>.\<close>

definition strip :: "string \<Rightarrow> string" where
  "strip s = rev (dropWhile is_space (rev (dropWhile is_space s)))"

definition lower_char :: "char \<Rightarrow> char" where
  "lower_char c =
     (let n = (of_char c :: nat)
      in if (65 \<le> n \<and> n \<le> 90) \<or> (192 \<le> n \<and> n \<le> 222 \<and> n \<noteq> 215)
         then char_of (n + 32) else c)"

definition lower :: "string \<Rightarrow> string" where
  "lower s = map lower_char s"

definition startswith :: "string \<Rightarrow> string \<Rightarrow> bool" where
  "startswith s p = (take (length p) s = p)"

definition endswith :: "string \<Rightarrow> string \<Rightarrow> bool" where
  "endswith s p = startswith (rev s) (rev p)"

fun contains :: "string \<Rightarrow> string \<Rightarrow> bool" where
  "contains sub [] = (sub = [])"
| "contains sub (c # cs) = (startswith (c # cs) sub \<or> contains sub cs)"

text \<open>\<open>sep.join(xs)\<close> and \<open>str(n)\<close> for an integer.\<close>

fun join :: "string \<Rightarrow> string list \<Rightarrow> string" where
  "join sep [] = []"
| "join sep [x] = x"
| "join sep (x # y # ys) = x @ sep @ join sep (y # ys)"

definition digit_char :: "nat \<Rightarrow> char" where
  "digit_char d = char_of (48 + d)"

function str_nat :: "nat \<Rightarrow> string" where
  "str_nat n = (if n < 10 then [digit_char n] else str_nat (n div 10) @ [digit_char (n mod 10)])"
  by pat_completeness auto
termination
  by (relation "measure id") auto

declare str_nat.simps [simp del]

definition str_int :: "int \<Rightarrow> string" where
  "str_int i = (if i < 0 then CHR ''-'' # str_nat (nat (- i)) else str_nat (nat i))"

text \<open>
  A Python value where the code takes \<open>Any\<close>: \<open>None\<close>, a \<open>str\<close> or a number, with its
  truth value.
\<close>

datatype pyval = PNone | PStr string | PNum rat

fun truthy :: "pyval \<Rightarrow> bool" where
  "truthy PNone = False"
| "truthy (PStr s) = (s \<noteq> [])"
| "truthy (PNum q) = (q \<noteq> 0)"

text \<open>\<open>a or b\<close>.\<close>

definition py_or :: "pyval \<Rightarrow> pyval \<Rightarrow> pyval" where
  "py_or a b = (if truthy a then a else b)"

subsection \<open>The builtin \<open>float\<close>\<close>

text \<open>
  \<open>float(s)\<close> for a string follows the grammar of the language reference: surrounding
  whitespace is stripped, then \<open>[sign] (number [exponent] | inf | infinity | nan)\<close> with
  \<open>digitpart ::= digit (["_"] digit)*\<close>. A literal that is not of this form raises
  ValueError. \<open>inf\<close>, \<open>infinity\<close> and \<open>nan\<close> denote no rational: the model returns the
  error \<open>NonFinite\<close> for them, which no handler of the modelled code catches.
\<close>

definition is_digit :: "char \<Rightarrow> bool" where
  "is_digit c = (c \<in> set ''0123456789'')"

definition digit_val :: "char \<Rightarrow> nat" where
  "digit_val c = of_char c - 48"

definition digits_val :: "string \<Rightarrow> nat" where
  "digits_val ds = foldl (\<lambda>a c. 10 * a + digit_val c) 0 ds"

text \<open>The longest \<open>digit (["_"] digit)*\<close> at the front, its digits, and the rest.\<close>

fun digitpart :: "string \<Rightarrow> string \<times> string" where
  "digitpart [] = ([], [])"
| "digitpart [c] = (if is_digit c then ([c], []) else ([], [c]))"
| "digitpart (c # c' # cs) =
     (if is_digit c then (case digitpart (c' # cs) of (d, r) \<Rightarrow> (c # d, r))
      else if c = CHR ''_'' \<and> is_digit c'
        then (case digitpart (c' # cs) of (d, r) \<Rightarrow> (d, r))
      else ([], c # c' # cs))"

text \<open>A digitpart must start with a digit.\<close>

definition digitpart1 :: "string \<Rightarrow> (string \<times> string) option" where
  "digitpart1 s =
     (case s of [] \<Rightarrow> None
      | c # cs \<Rightarrow> if is_digit c then Some (digitpart s) else None)"

text \<open>\<open>number\<close>: integer digits, fraction digits and the rest.\<close>

definition float_number :: "string \<Rightarrow> (string \<times> string \<times> string) option" where
  "float_number s =
     (case digitpart1 s of
        Some (ip, r) \<Rightarrow>
          (case r of
             c # r' \<Rightarrow>
               if c = CHR ''.''
               then (case digitpart1 r' of
                       Some (fp, r'') \<Rightarrow> Some (ip, fp, r'')
                     | None \<Rightarrow> Some (ip, [], r'))
               else Some (ip, [], r)
           | [] \<Rightarrow> Some (ip, [], []))
      | None \<Rightarrow>
          (case s of
             c # r' \<Rightarrow>
               if c = CHR ''.''
               then (case digitpart1 r' of
                       Some (fp, r'') \<Rightarrow> Some ([], fp, r'')
                     | None \<Rightarrow> None)
               else None
           | [] \<Rightarrow> None))"

text \<open>An optional sign: \<open>True\<close> for a minus.\<close>

definition take_sign :: "string \<Rightarrow> bool \<times> string" where
  "take_sign s =
     (case s of
        c # cs \<Rightarrow> if c = CHR ''-'' then (True, cs) else if c = CHR ''+'' then (False, cs)
                  else (False, s)
      | [] \<Rightarrow> (False, []))"

text \<open>\<open>exponent\<close>, which must reach the end of the string.\<close>

definition float_exponent :: "string \<Rightarrow> int option" where
  "float_exponent r =
     (case r of
        [] \<Rightarrow> Some 0
      | c # cs \<Rightarrow>
          if c = CHR ''e'' \<or> c = CHR ''E''
          then (case take_sign cs of
                  (neg, ds) \<Rightarrow>
                    (case digitpart1 ds of
                       Some (ed, []) \<Rightarrow>
                         Some (if neg then - int (digits_val ed) else int (digits_val ed))
                     | Some (ed, x # xs) \<Rightarrow> None
                     | None \<Rightarrow> None))
          else None)"

definition pow10 :: "int \<Rightarrow> rat" where
  "pow10 e = (if e < 0 then 1 / (10 ^ nat (- e)) else 10 ^ nat e)"

definition float_error :: "string \<Rightarrow> string" where
  "float_error s = ''could not convert string to float: '' @ [CHR 0x27] @ s @ [CHR 0x27]"

definition py_float :: "string \<Rightarrow> exn + rat" where
  "py_float s =
     (case take_sign (strip s) of
        (neg, body) \<Rightarrow>
          if lower body \<in> set [''inf'', ''infinity'', ''nan''] then Inl (NonFinite s)
          else
            (case float_number body of
               None \<Rightarrow> Inl (ValueError (float_error s))
             | Some (ip, fp, r) \<Rightarrow>
                 (case float_exponent r of
                    None \<Rightarrow> Inl (ValueError (float_error s))
                  | Some e \<Rightarrow>
                      (let m = of_nat (digits_val (ip @ fp)) / (10 ^ length fp) * pow10 e
                       in Inr (if neg then - m else m)))))"

text \<open>\<open>float(v)\<close> for a value.\<close>

fun float_of :: "pyval \<Rightarrow> exn + rat" where
  "float_of (PNum q) = Inr q"
| "float_of (PStr s) = py_float s"
| "float_of PNone = Inl (TypeError ''float() argument must be a string or a real number'')"

section \<open>PDF classifier (services/pdf\_classifier.py)\<close>

datatype PDFType = TEXT_ONLY | IMAGE_HEAVY | IMAGE_LIGHT | MIXED

record pil_image =
  width :: int
  height :: int
  mode :: string

record PDFClassification =
  pdf_type :: PDFType
  page_count :: nat
  image_count :: nat
  has_text :: bool
  text_length :: nat
  images :: "pil_image list"
  text_content :: string

record PDFClassifier =
  image_threshold :: int
  min_image_width :: int
  min_image_height :: int
  min_image_area :: int

text \<open>\<open>PDFClassifier.__init__\<close> with its default arguments, and \<open>get_pdf_classifier\<close>.\<close>

definition PDFClassifier_init :: "int \<Rightarrow> int \<Rightarrow> int \<Rightarrow> int \<Rightarrow> PDFClassifier" where
  "PDFClassifier_init thr w h a =
     \<lparr>image_threshold = thr, min_image_width = w, min_image_height = h, min_image_area = a\<rparr>"

definition get_pdf_classifier :: PDFClassifier where
  "get_pdf_classifier = PDFClassifier_init 2 200 200 40000"

text \<open>
  The test of \<open>classify_pdf\<close>, lines 110 to 112, that keeps an embedded image as a real
  image rather than a logo or icon (the spec's Image Filter).
\<close>

definition is_content_image :: "int \<Rightarrow> int \<Rightarrow> int \<Rightarrow> int \<Rightarrow> int \<Rightarrow> bool" where
  "is_content_image w h min_w min_h min_area =
     (w \<ge> min_w \<and> h \<ge> min_h \<and> w * h \<ge> min_area)"

text \<open>
  A PDF as PyMuPDF shows it: per page its text and the xrefs of its embedded images.
  \<open>open_image\<close> stands for \<open>doc.extract_image\<close>, \<open>Image.open\<close> and \<open>.size\<close> on one xref,
  \<open>convert_rgb\<close> for \<open>pil_image.convert('RGB')\<close>; each may raise.
\<close>

record pdf_page =
  page_text :: string
  page_images :: "nat list"

type_synonym pdf_doc = "pdf_page list"

record pdf_env =
  open_image :: "nat \<Rightarrow> exn + pil_image"
  convert_rgb :: "pil_image \<Rightarrow> exn + pil_image"

text \<open>
  The body of the \<open>try\<close> of lines 97 to 125 for one embedded image: \<open>Inr (Some img)\<close> when
  the image is appended, \<open>Inr None\<close> when it is filtered, \<open>Inl e\<close> when a step raised.
\<close>

definition extract_one :: "PDFClassifier \<Rightarrow> pdf_env \<Rightarrow> nat \<Rightarrow> exn + pil_image option" where
  "extract_one cl env xref =
     (case open_image env xref of
        Inl e \<Rightarrow> Inl e
      | Inr img \<Rightarrow>
          if is_content_image (width img) (height img)
               (min_image_width cl) (min_image_height cl) (min_image_area cl)
          then (if mode img \<noteq> ''RGB''
                then (case convert_rgb env img of Inl e \<Rightarrow> Inl e | Inr img' \<Rightarrow> Inr (Some img'))
                else Inr (Some img))
          else Inr None)"

text \<open>The inner loop with its \<open>except Exception\<close>: a raising image is logged and skipped.\<close>

fun extract_images :: "PDFClassifier \<Rightarrow> pdf_env \<Rightarrow> nat list \<Rightarrow> pil_image list \<Rightarrow> pil_image list" where
  "extract_images cl env [] acc = acc"
| "extract_images cl env (xref # xs) acc =
     (case extract_one cl env xref of
        Inr (Some img) \<Rightarrow> extract_images cl env xs (acc @ [img])
      | Inr None \<Rightarrow> extract_images cl env xs acc
      | Inl e \<Rightarrow> extract_images cl env xs acc)"

text \<open>The outer loop over the pages.\<close>

fun extract_pages :: "PDFClassifier \<Rightarrow> pdf_env \<Rightarrow> pdf_page list \<Rightarrow> pil_image list \<Rightarrow> pil_image list" where
  "extract_pages cl env [] acc = acc"
| "extract_pages cl env (p # ps) acc =
     extract_pages cl env ps (extract_images cl env (page_images p) acc)"

text \<open>The \<open>if\<close>/\<open>elif\<close> chain of lines 135 to 169.\<close>

definition classify_type :: "PDFClassifier \<Rightarrow> nat \<Rightarrow> bool \<Rightarrow> nat \<Rightarrow> nat \<Rightarrow> PDFType" where
  "classify_type cl n_images txt txt_len n_pages =
     (if n_images = 0 \<and> txt then TEXT_ONLY
      else if int n_images > image_threshold cl \<and> \<not> txt then IMAGE_HEAVY
      else if int n_images \<le> image_threshold cl \<and> \<not> txt \<and> n_pages \<le> 5
        then IMAGE_LIGHT
      else if int n_images \<le> image_threshold cl \<and> \<not> txt \<and> n_pages > 5
        then IMAGE_HEAVY
      else if txt \<and> txt_len > 500 then TEXT_ONLY
      else if int n_images \<le> image_threshold cl \<and> n_pages \<le> 5 then IMAGE_LIGHT
      else if int n_images \<le> image_threshold cl \<and> n_pages > 5 then IMAGE_HEAVY
      else MIXED)"

definition classify_doc :: "PDFClassifier \<Rightarrow> pdf_env \<Rightarrow> pdf_doc \<Rightarrow> PDFClassification" where
  "classify_doc cl env doc =
     (let n_pages = length doc;
          content = concat (map page_text doc);
          txt = (length (strip content) > 50);
          txt_len = length (strip content);
          imgs = extract_pages cl env doc [];
          n_images = length imgs
      in \<lparr>pdf_type = classify_type cl n_images txt txt_len n_pages,
          page_count = n_pages,
          image_count = n_images,
          has_text = txt,
          text_length = txt_len,
          images = imgs,
          text_content = content\<rparr>)"

text \<open>\<open>classify_pdf\<close>: \<open>fitz.open\<close> may raise, and that error is not caught.\<close>

definition classify_pdf :: "PDFClassifier \<Rightarrow> pdf_env \<Rightarrow> exn + pdf_doc \<Rightarrow> exn + PDFClassification" where
  "classify_pdf cl env opened =
     (case opened of Inl e \<Rightarrow> Inl e | Inr doc \<Rightarrow> Inr (classify_doc cl env doc))"

section \<open>OCR service (services/simple\_ocr\_service.py)\<close>

text \<open>
  The OCR engine called through pytesseract: \<open>image_to_string\<close> gives the text,
  \<open>image_to_data\<close> the list \<open>data['conf']\<close>; both take the img, the language parameter
  and the configuration string, and both may raise.
\<close>

record ocr_engine =
  image_to_string :: "pil_image \<Rightarrow> string \<Rightarrow> string \<Rightarrow> exn + string"
  image_to_data :: "pil_image \<Rightarrow> string \<Rightarrow> string \<Rightarrow> exn + pyval list"

text \<open>\<open>str(e)\<close>.\<close>

fun str_exn :: "exn \<Rightarrow> string" where
  "str_exn (ValueError m) = m"
| "str_exn (KeyError m) = m"
| "str_exn (TypeError m) = m"
| "str_exn (AttributeError m) = m"
| "str_exn (RuntimeError m) = m"
| "str_exn (JSONDecodeError m) = m"
| "str_exn (UnboundLocalError m) = m"
| "str_exn (OtherError m) = m"
| "str_exn (NonFinite m) = m"

text \<open>\<open>[float(conf) for conf in data['conf'] if conf != '-1']\<close>; the first error ends it.\<close>

fun token_confidences :: "pyval list \<Rightarrow> exn + rat list" where
  "token_confidences [] = Inr []"
| "token_confidences (conf # cs) =
     (if conf \<noteq> PStr ''-1''
      then (case float_of conf of
              Inl e \<Rightarrow> Inl e
            | Inr q \<Rightarrow> (case token_confidences cs of Inl e \<Rightarrow> Inl e | Inr qs \<Rightarrow> Inr (q # qs)))
      else token_confidences cs)"

text \<open>\<open>sum(xs) / len(xs) if xs else 0.0\<close>.\<close>

definition average :: "rat list \<Rightarrow> rat" where
  "average xs = (if xs \<noteq> [] then sum_list xs / of_nat (length xs) else 0)"

text \<open>
  \<open>extract_text_from_image\<close>. \<open>languages\<close> is \<open>None\<close> or a list; every exception of the
  body is raised again as a RuntimeError.
\<close>

definition extract_text_from_image ::
  "ocr_engine \<Rightarrow> pil_image \<Rightarrow> string list option \<Rightarrow> int \<Rightarrow> exn + (string \<times> rat)" where
  "extract_text_from_image eng img languages psm =
     (let langs = (case languages of None \<Rightarrow> [''eng''] | Some [] \<Rightarrow> [''eng''] | Some ls \<Rightarrow> ls);
          lang_param = join ''+'' langs;
          config = ''--psm '' @ str_int psm;
          ocr_failed = (\<lambda>e. Inl (RuntimeError (''OCR extraction failed: '' @ str_exn e)))
      in case image_to_string eng img lang_param config of
           Inl e \<Rightarrow> ocr_failed e
         | Inr text \<Rightarrow>
             (case image_to_data eng img lang_param config of
                Inl e \<Rightarrow> ocr_failed e
              | Inr confs \<Rightarrow>
                  (case token_confidences confs of
                     Inl e \<Rightarrow> ocr_failed e
                   | Inr confidences \<Rightarrow>
                       (let avg_confidence = average confidences;
                            confidence_score = avg_confidence / 100
                        in Inr (strip text, confidence_score)))))"



section \<open>Extraction service (services/gemini\_service.py)\<close>

text \<open>A value as \<open>json.loads\<close> returns it; an object keeps its items, keys distinct.\<close>

datatype json =
    JNull
  | JBool bool
  | JNum rat
  | JStr string
  | JArr "json list"
  | JObj "(string \<times> json) list"

text \<open>
  \<open>result.get(key, default)\<close>: only a \<open>dict\<close> has \<open>get\<close>, another value raises
  AttributeError.
\<close>

definition json_get :: "json \<Rightarrow> string \<Rightarrow> json \<Rightarrow> exn + json" where
  "json_get v key dflt =
     (case v of
        JObj items \<Rightarrow> (case map_of items key of Some x \<Rightarrow> Inr x | None \<Rightarrow> Inr dflt)
      | _ \<Rightarrow> Inl (AttributeError ''object has no attribute 'get' ''))"

text \<open>
  The number a value stands for in arithmetic and in the format \<open>.2%\<close>: a \<open>bool\<close> is an
  \<open>int\<close>; any other value that is not a number raises there.
\<close>

fun json_num :: "json \<Rightarrow> rat option" where
  "json_num (JNum q) = Some q"
| "json_num (JBool b) = Some (if b then 1 else 0)"
| "json_num v = None"

text \<open>What is sent to the model: a text prompt, or a text with page images.\<close>

datatype prompt = TextPrompt string | VisionPrompt string "pil_image list"

text \<open>
  The external service: \<open>generate_content\<close> returns \<open>response.text\<close> or raises;
  \<open>json_loads\<close> is \<open>json.loads\<close>, which raises JSONDecodeError on a text that is not JSON.
  \<open>FIELD_EXTRACTION_PROMPT\<close> is the prompt constant of the module.
\<close>

record gemini_env =
  generate_content :: "prompt \<Rightarrow> exn + string"
  json_loads :: "string \<Rightarrow> exn + json"
  FIELD_EXTRACTION_PROMPT :: string

text \<open>The dictionary the service methods return, a missing key being \<open>None\<close>.\<close>

record result_metadata =
  md_pdf_type :: PDFType
  md_page_count :: nat
  md_image_count :: nat
  md_has_text :: bool
  md_text_length :: nat

record result =
  success :: bool
  error :: "string option"
  raw_response :: "string option"
  document_type :: "json option"
  confidence :: "rat option"
  extracted_data :: "json option"
  summary :: "json option"
  extraction_method :: string
  ocr_confidence :: "rat option"
  api_confidence :: "rat option"
  metadata :: "result_metadata option"

definition failure_result :: "string \<Rightarrow> string option \<Rightarrow> string \<Rightarrow> result" where
  "failure_result err raw meth =
     \<lparr>success = False, error = Some err, raw_response = raw, document_type = None,
      confidence = None, extracted_data = None, summary = None, extraction_method = meth,
      ocr_confidence = None, api_confidence = None, metadata = None\<rparr>"

text \<open>The removal of a Markdown code fence around the response.\<close>

definition strip_code_fence :: "string \<Rightarrow> string" where
  "strip_code_fence response =
     (let t0 = strip response;
          t1 = (if startswith t0 ''```json'' then drop 7 t0 else t0);
          t2 = (if startswith t1 ''```'' then drop 3 t1 else t1);
          t3 = (if endswith t2 ''```'' then take (length t2 - 3) t2 else t2)
      in strip t3)"

text \<open>
  The part of \<open>extract_fields_from_text\<close> after \<open>json.loads\<close>, inside the \<open>try\<close>: \<open>Inl\<close>
  is an exception for the handler \<open>except Exception\<close>.
\<close>

definition text_result :: "json \<Rightarrow> rat option \<Rightarrow> exn + result" where
  "text_result res ocr_conf =
     (case json_get res ''confidence'' (JNum (9 / 10)) of
        Inl e \<Rightarrow> Inl e
      | Inr api \<Rightarrow>
          (case json_num api of
             None \<Rightarrow> Inl (TypeError ''confidence is not a number'')
           | Some api_conf \<Rightarrow>
               (let overall_confidence =
                      (case ocr_conf of Some oc \<Rightarrow> (oc + api_conf) / 2 | None \<Rightarrow> api_conf)
                in case json_get res ''document_type'' (JStr ''Unknown'') of
                     Inl e \<Rightarrow> Inl e
                   | Inr dt \<Rightarrow>
                       (case json_get res ''extracted_data'' (JArr []) of
                          Inl e \<Rightarrow> Inl e
                        | Inr ed \<Rightarrow>
                            (case json_get res ''summary'' (JStr []) of
                               Inl e \<Rightarrow> Inl e
                             | Inr sm \<Rightarrow>
                                 Inr \<lparr>success = True, error = None, raw_response = None,
                                      document_type = Some dt,
                                      confidence = Some overall_confidence,
                                      extracted_data = Some ed, summary = Some sm,
                                      extraction_method = ''gemini_text'', ocr_confidence = ocr_conf,
                                      api_confidence = Some api_conf,
                                      metadata = None\<rparr>)))))"

text \<open>
  The two handlers shared by the service methods. When \<open>generate_content\<close> itself raises a
  JSONDecodeError, the first handler reads \<open>response_text\<close> before it is bound, and that
  error leaves the method.
\<close>

definition call_service :: "gemini_env \<Rightarrow> prompt \<Rightarrow> string \<Rightarrow> (json \<Rightarrow> exn + result) \<Rightarrow> exn + result" where
  "call_service env p meth build =
     (case generate_content env p of
        Inl (JSONDecodeError m) \<Rightarrow>
          Inl (UnboundLocalError ''cannot access local variable 'response_text' '')
      | Inl e \<Rightarrow> Inr (failure_result ''Document processing service error'' None meth)
      | Inr response \<Rightarrow>
          (let response_text = strip_code_fence response
           in case json_loads env response_text of
                Inl (JSONDecodeError m) \<Rightarrow>
                  Inr (failure_result ''Failed to process document response''
                         (Some (take 500 response_text)) meth)
              | Inl e \<Rightarrow> Inr (failure_result ''Document processing service error'' None meth)
              | Inr res \<Rightarrow>
                  (case build res of
                     Inl (JSONDecodeError m) \<Rightarrow>
                       Inr (failure_result ''Failed to process document response''
                              (Some (take 500 response_text)) meth)
                   | Inl e \<Rightarrow>
                       Inr (failure_result ''Document processing service error'' None meth)
                   | Inr r \<Rightarrow> Inr r)))"

definition extract_fields_from_text :: "gemini_env \<Rightarrow> string \<Rightarrow> rat option \<Rightarrow> exn + result" where
  "extract_fields_from_text env text ocr_conf =
     (let full_prompt = FIELD_EXTRACTION_PROMPT env @ [CHR 0x0A, CHR 0x0A]
                          @ ''--- DOCUMENT TEXT ---'' @ [CHR 0x0A] @ text
      in call_service env (TextPrompt full_prompt) ''gemini_text'' (\<lambda>res. text_result res ocr_conf))"



section \<open>Document processor (services/document\_processor.py)\<close>

text \<open>
  What the processor reaches through its services: the PDF at a path (\<open>fitz.open\<close>), the
  images of the PDF, the page renderer at a DPI, the OCR engine and the extraction service.
\<close>

record proc_env =
  fitz_open :: "string \<Rightarrow> exn + pdf_doc"
  pdf_images :: pdf_env
  render_all_pages_to_images :: "string \<Rightarrow> nat \<Rightarrow> exn + pil_image list"
  ocr :: ocr_engine
  gemini :: gemini_env




section \<open>Jobs and extracted fields (models/job.py, models/field.py)\<close>

datatype JobStatus = QUEUED | PROCESSING | COMPLETED | FAILED

record issue =
  issue_name :: string
  severity :: string

record duplicate_info =
  is_duplicate :: bool
  original_job_id :: int
  original_filename :: string
  original_upload_date :: nat
  dup_risk_level :: string
  message :: string

record metadata_analysis =
  manipulation_indicators :: "string list"
  metadata_available :: bool
  meta_risk_level :: string

record consistency_check =
  consistency_issues :: "issue list"
  total_issues :: nat
  cons_risk_level :: string

record low_confidence_field =
  lc_field :: string
  lc_confidence :: rat
  lc_value :: "string option"
  reason :: string

record confidence_analysis =
  average_confidence :: rat
  low_confidence_fields :: "low_confidence_field list"
  total_low_confidence :: nat
  conf_risk_level :: string

record report =
  overall_risk_level :: string
  risk_score :: nat
  max_risk_score :: nat
  recommendation :: string
  flags :: "string list"
  total_flags :: nat
  duplicate_detection :: "duplicate_info option"
  metadata_detail :: metadata_analysis
  consistency_detail :: consistency_check
  confidence_detail :: confidence_analysis
  timestamp :: nat

record job =
  job_id :: int
  user_id :: int
  filename :: string
  s3_path :: string
  file_hash :: "string option"
  status :: JobStatus
  error_message :: "string option"
  fraud_analysis :: "report option"
  created_at :: nat
  completed_at :: "nat option"

record extracted_field =
  ef_job_id :: int
  ef_field_name :: string
  original_value :: "string option"
  edited_value :: "string option"
  ef_confidence :: "string option"
  is_edited :: bool


section \<open>Fraud detection (services/fraud\_detection.py)\<close>

text \<open>
  One element of \<open>extracted_fields\<close>, a dictionary: \<open>field_name\<close> is \<open>None\<close> when the key
  is missing; \<open>current_value\<close> is a string or Python's \<open>None\<close> (a missing key reads as the
  empty string); \<open>confidence\<close> and \<open>extraction_confidence\<close> are \<open>PNone\<close> when missing.
\<close>

record field =
  field_name :: "string option"
  current_value :: "string option"
  field_confidence :: pyval
  extraction_confidence :: pyval

text \<open>
  What the analysis reads from outside: the EXIF tags of an image file and the metadata of
  a PDF file, each as the items stored under a name before an exception, if any, ended
  the reading; \<open>datetime.strptime\<close> (times are numbers); the clock.
\<close>

record fraud_env =
  read_exif :: "string \<Rightarrow> (string \<times> string) list \<times> exn option"
  read_pdf_metadata :: "string \<Rightarrow> (string \<times> string) list \<times> exn option"
  strptime :: "string \<Rightarrow> string \<Rightarrow> int option"
  now :: int
  utcnow :: nat

text \<open>\<open>check_duplicate\<close>: the first completed job of the user with the hash.\<close>

definition check_duplicate :: "string \<Rightarrow> int \<Rightarrow> job list \<Rightarrow> duplicate_info option" where
  "check_duplicate h uid jobs =
     (case filter (\<lambda>j. user_id j = uid \<and> file_hash j = Some h \<and> status j = COMPLETED) jobs of
        [] \<Rightarrow> None
      | duplicate_job # rest \<Rightarrow>
          Some \<lparr>is_duplicate = True,
                original_job_id = job_id duplicate_job,
                original_filename = filename duplicate_job,
                original_upload_date = created_at duplicate_job,
                dup_risk_level = ''high'',
                message = ''This document has already been processed''\<rparr>)"

text \<open>\<open>key in d\<close> and \<open>d[key]\<close> for a dictionary filled by assignments in list order.\<close>

definition dict_of :: "('k \<times> 'v) list \<Rightarrow> 'k \<Rightarrow> 'v option" where
  "dict_of items = map_of (rev items)"

text \<open>\<open>_analyze_pdf_metadata\<close>: an exception is logged and what was read is returned.\<close>

definition analyze_pdf_metadata :: "fraud_env \<Rightarrow> string \<Rightarrow> (string \<times> string) list" where
  "analyze_pdf_metadata env pdf_path = fst (read_pdf_metadata env pdf_path)"

definition analyze_image_metadata :: "fraud_env \<Rightarrow> string \<Rightarrow> metadata_analysis" where
  "analyze_image_metadata env file_path =
     (let (md, indicators) =
            (if endswith (lower file_path) ''.pdf''
             then (analyze_pdf_metadata env file_path, [])
             else (case read_exif env file_path of
                     (tags, Some e) \<Rightarrow> (tags, [''Unable to extract metadata''])
                   | (tags, None) \<Rightarrow>
                       (tags,
                        (case dict_of tags ''Software'' of
                           Some software \<Rightarrow>
                             if list_ex (\<lambda>editor. contains editor (lower software))
                                  [''photoshop'', ''gimp'', ''paint'']
                             then [''Document edited with image editing software'']
                             else []
                         | None \<Rightarrow> [])
                        @ (if dict_of tags ''DateTime'' = None
                           then [''Missing creation timestamp''] else []))));
          level = (if length indicators \<ge> 2 then ''high''
                   else if indicators \<noteq> [] then ''medium'' else ''low'')
      in \<lparr>manipulation_indicators = indicators,
          metadata_available = (md \<noteq> []),
          meta_risk_level = level\<rparr>)"

text \<open>
  \<open>_extract_amount\<close>. The characters removed are the comma, the dollar sign and, of the
  other currency signs of the pattern, the one below code point 256 (the pound sign). The
  match of \<open>[\d,]+\.?\d*\<close> starts at the first digit.
\<close>

definition amount_match :: "string \<Rightarrow> string option" where
  "amount_match cleaned =
     (case dropWhile (\<lambda>c. \<not> is_digit c) cleaned of
        [] \<Rightarrow> None
      | c # cs \<Rightarrow>
          (let ip = takeWhile is_digit (c # cs);
               r = dropWhile is_digit (c # cs)
           in case r of
                [] \<Rightarrow> Some ip
              | d # r' \<Rightarrow>
                  if d = CHR ''.'' then Some (ip @ [d] @ takeWhile is_digit r')
                  else Some ip))"

definition extract_amount :: "string option \<Rightarrow> rat option" where
  "extract_amount text =
     (case text of
        None \<Rightarrow> None
      | Some t \<Rightarrow>
          if t = [] then None
          else (let cleaned = filter (\<lambda>c. c \<notin> set [CHR '','', CHR ''$'', CHR 0xA3]) t
                in case amount_match cleaned of
                     None \<Rightarrow> None
                   | Some m \<Rightarrow>
                       (case py_float (filter (\<lambda>c. c \<noteq> CHR '','') m) of
                          Inr q \<Rightarrow> Some q
                        | Inl e \<Rightarrow> None)))"

text \<open>\<open>_parse_date\<close>: the first of the formats that \<open>strptime\<close> accepts.\<close>

definition date_formats :: "string list" where
  "date_formats = [''%Y-%m-%d'', ''%d/%m/%Y'', ''%m/%d/%Y'', ''%d-%m-%Y'', ''%m-%d-%Y'',
                   ''%Y/%m/%d'', ''%d %B %Y'', ''%B %d, %Y'']"

fun first_format :: "fraud_env \<Rightarrow> string \<Rightarrow> string list \<Rightarrow> int option" where
  "first_format env date_str [] = None"
| "first_format env date_str (fmt # fmts) =
     (case strptime env date_str fmt of
        Some d \<Rightarrow> Some d
      | None \<Rightarrow> first_format env date_str fmts)"

definition parse_date :: "fraud_env \<Rightarrow> string option \<Rightarrow> int option" where
  "parse_date env date_str =
     (case date_str of
        None \<Rightarrow> None
      | Some s \<Rightarrow> if s = [] then None else first_format env s date_formats)"

text \<open>
  The two patterns of \<open>suspicious_amounts\<close> under \<open>re.search\<close>: \<open>\$9{3,}\<close> finds a dollar
  sign followed by three nines; \<open>\.00$\<close> finds \<open>.00\<close> at the end or before a last newline.
\<close>

definition suspicious_amounts :: "(string \<Rightarrow> bool) list" where
  "suspicious_amounts =
     [\<lambda>s. contains ''$999'' s,
      \<lambda>s. endswith s ''.00'' \<or> endswith s (''.00'' @ [CHR 0x0A])]"

text \<open>\<open>d[key] = value\<close> on a dictionary kept as its items in insertion order.\<close>

fun dict_set :: "('k \<times> 'v) list \<Rightarrow> 'k \<Rightarrow> 'v \<Rightarrow> ('k \<times> 'v) list" where
  "dict_set [] k v = [(k, v)]"
| "dict_set ((k', v') # d) k v =
     (if k' = k then (k', v) # d else (k', v') # dict_set d k v)"

text \<open>The comprehension that builds \<open>field_dict\<close>; \<open>field['field_name']\<close> may raise.\<close>

fun build_field_dict ::
  "field list \<Rightarrow> (string \<times> string option) list \<Rightarrow> exn + (string \<times> string option) list" where
  "build_field_dict [] d = Inr d"
| "build_field_dict (f # fs) d =
     (case field_name f of
        None \<Rightarrow> Inl (KeyError ([CHR 0x27] @ ''field_name'' @ [CHR 0x27]))
      | Some n \<Rightarrow> build_field_dict fs (dict_set d n (current_value f)))"

text \<open>\<open>field_dict.get(key, '')\<close>, \<open>str(value)\<close> and the truth value of a text.\<close>

definition dict_get :: "(string \<times> string option) list \<Rightarrow> string \<Rightarrow> string option" where
  "dict_get d key = (case map_of d key of Some v \<Rightarrow> v | None \<Rightarrow> Some [])"

definition str_value :: "string option \<Rightarrow> string" where
  "str_value v = (case v of None \<Rightarrow> ''None'' | Some s \<Rightarrow> s)"

definition nonempty :: "string option \<Rightarrow> bool" where
  "nonempty v = (case v of None \<Rightarrow> False | Some s \<Rightarrow> s \<noteq> [])"

text \<open>The loop over the items of \<open>field_dict\<close> that screens amounts.\<close>

definition suspicious_issues :: "(string \<times> string option) list \<Rightarrow> issue list" where
  "suspicious_issues d =
     concat (map (\<lambda>(name, v).
        if contains ''amount'' (lower name) \<or> contains ''total'' (lower name)
        then concat (map (\<lambda>pattern.
               if pattern (str_value v)
               then [\<lparr>issue_name = ''Suspicious amount pattern'', severity = ''medium''\<rparr>]
               else []) suspicious_amounts)
        else []) d)"

text \<open>
  The check of the invoice total. In \<open>if total_amount and subtotal and tax\<close> an amount
  that is \<open>None\<close> or \<open>0.0\<close> is false. The sum and the comparison with 0.01 are exact
  here; in floating point they differ from this at rounding boundaries only (0.5 + 0.51
  against 1.0 exceeds 0.01 by the rounding of the sum).
\<close>

definition total_mismatch_issues :: "rat option \<Rightarrow> rat option \<Rightarrow> rat option \<Rightarrow> issue list" where
  "total_mismatch_issues total_amount subtotal tax =
     (case (total_amount, subtotal, tax) of
        (Some total_v, Some subtotal_v, Some tax_v) \<Rightarrow>
          if total_v \<noteq> 0 \<and> subtotal_v \<noteq> 0 \<and> tax_v \<noteq> 0
          then (let calculated_total = subtotal_v + tax_v
                in if \<bar>calculated_total - total_v\<bar> > 1 / 100
                   then [\<lparr>issue_name = ''Total amount mismatch'', severity = ''high''\<rparr>]
                   else [])
          else []
      | _ \<Rightarrow> [])"

text \<open>The check for a date in the future and the check of the order of the dates.\<close>

definition future_date_issues :: "fraud_env \<Rightarrow> string option \<Rightarrow> issue list" where
  "future_date_issues env invoice_date =
     (if nonempty invoice_date
      then (case parse_date env invoice_date of
              Some parsed_date \<Rightarrow>
                if parsed_date > now env
                then [\<lparr>issue_name = ''Future invoice date'', severity = ''medium''\<rparr>]
                else []
            | None \<Rightarrow> [])
      else [])"

definition date_order_issues :: "fraud_env \<Rightarrow> string option \<Rightarrow> string option \<Rightarrow> issue list" where
  "date_order_issues env invoice_date due_date =
     (if nonempty invoice_date \<and> nonempty due_date
      then (case (parse_date env invoice_date, parse_date env due_date) of
              (Some inv_date, Some d_date) \<Rightarrow>
                if d_date < inv_date
                then [\<lparr>issue_name = ''Due date before invoice date'', severity = ''high''\<rparr>]
                else []
            | _ \<Rightarrow> [])
      else [])"

text \<open>
  \<open>check_text_consistency\<close>. The \<open>details\<close> text of an issue, a formatted message, is not
  part of the model.
\<close>

definition check_text_consistency :: "fraud_env \<Rightarrow> field list \<Rightarrow> exn + consistency_check" where
  "check_text_consistency env extracted_fields =
     (case build_field_dict extracted_fields [] of
        Inl e \<Rightarrow> Inl e
      | Inr field_dict \<Rightarrow>
          (let total_amount = extract_amount (dict_get field_dict ''invoice_total'');
               subtotal = extract_amount (dict_get field_dict ''invoice_subtotal'');
               tax = extract_amount (dict_get field_dict ''invoice_tax'');
               invoice_date = dict_get field_dict ''invoice_date'';
               due_date = dict_get field_dict ''invoice_due_date'';
               issues = total_mismatch_issues total_amount subtotal tax
                        @ future_date_issues env invoice_date
                        @ date_order_issues env invoice_date due_date
                        @ suspicious_issues field_dict;
               level = (if list_ex (\<lambda>i. severity i = ''high'') issues then ''high''
                        else if issues \<noteq> [] then ''medium'' else ''low'')
           in Inr \<lparr>consistency_issues = issues,
                   total_issues = length issues,
                   cons_risk_level = level\<rparr>))"

text \<open>\<open>confidence_map.get(...)\<close> of \<open>analyze_confidence_scores\<close>.\<close>

definition confidence_map :: "string \<Rightarrow> rat option" where
  "confidence_map = map_of [(''high'', 9 / 10), (''medium'', 7 / 10), (''low'', 5 / 10),
                            (''very high'', 95 / 100), (''very low'', 3 / 10)]"

definition critical_fields :: "string list" where
  "critical_fields = [''invoice_total'', ''invoice_number'', ''invoice_date'',
                      ''customer_name'', ''vendor_name'']"

text \<open>\<open>field.get('field_name', '')\<close>.\<close>

definition get_field_name :: "field \<Rightarrow> string" where
  "get_field_name f = (case field_name f of None \<Rightarrow> [] | Some n \<Rightarrow> n)"

text \<open>\<open>field.get('confidence') or field.get('extraction_confidence')\<close>.\<close>

definition get_confidence :: "field \<Rightarrow> pyval" where
  "get_confidence f = py_or (field_confidence f) (extraction_confidence f)"

text \<open>
  The number the first loop reads from a confidence that is true: \<open>Inr None\<close> is the
  \<open>continue\<close> after a ValueError of \<open>float\<close>.
\<close>

definition conf_float_of :: "pyval \<Rightarrow> exn + rat option" where
  "conf_float_of c =
     (case c of
        PStr s \<Rightarrow>
          (case confidence_map (strip (lower s)) of
             Some q \<Rightarrow> Inr (Some q)
           | None \<Rightarrow>
               (case py_float s of
                  Inr q \<Rightarrow> Inr (Some q)
                | Inl (ValueError m) \<Rightarrow> Inr None
                | Inl e \<Rightarrow> Inl e))
      | _ \<Rightarrow> (case float_of c of Inr q \<Rightarrow> Inr (Some q) | Inl e \<Rightarrow> Inl e))"

text \<open>The entries one field adds to \<open>low_confidence_fields\<close>, given its number.\<close>

definition low_entries :: "field \<Rightarrow> rat \<Rightarrow> low_confidence_field list" where
  "low_entries f conf_float =
     (if get_field_name f \<in> set critical_fields \<and> conf_float < 70 / 100
      then [\<lparr>lc_field = get_field_name f, lc_confidence = conf_float,
             lc_value = current_value f,
             reason = ''Critical field with low confidence''\<rparr>]
      else if conf_float < 50 / 100
      then [\<lparr>lc_field = get_field_name f, lc_confidence = conf_float,
             lc_value = current_value f,
             reason = ''Extremely low extraction confidence''\<rparr>]
      else [])"

text \<open>The first loop of \<open>analyze_confidence_scores\<close>.\<close>

fun low_confidence_loop :: "field list \<Rightarrow> exn + low_confidence_field list" where
  "low_confidence_loop [] = Inr []"
| "low_confidence_loop (f # fs) =
     (if truthy (get_confidence f)
      then (case conf_float_of (get_confidence f) of
              Inl e \<Rightarrow> Inl e
            | Inr None \<Rightarrow> low_confidence_loop fs
            | Inr (Some conf_float) \<Rightarrow>
                (case low_confidence_loop fs of
                   Inl e \<Rightarrow> Inl e
                 | Inr rest \<Rightarrow> Inr (low_entries f conf_float @ rest)))
      else low_confidence_loop fs)"

text \<open>
  The second loop: \<open>confidences.append(float(conf) if isinstance(conf, str) else conf)\<close>,
  outside any \<open>try\<close>.
\<close>

fun confidences_loop :: "field list \<Rightarrow> exn + rat list" where
  "confidences_loop [] = Inr []"
| "confidences_loop (f # fs) =
     (if truthy (get_confidence f)
      then (case float_of (get_confidence f) of
              Inl e \<Rightarrow> Inl e
            | Inr q \<Rightarrow>
                (case confidences_loop fs of Inl e \<Rightarrow> Inl e | Inr qs \<Rightarrow> Inr (q # qs)))
      else confidences_loop fs)"

text \<open>\<open>round(x, 3)\<close>, to the nearest thousandth, a tie going to the even one.\<close>

definition round3 :: "rat \<Rightarrow> rat" where
  "round3 x =
     (let y = x * 1000; fl = \<lfloor>y\<rfloor>; d = y - of_int fl
      in of_int (if d < 1 / 2 then fl else if d > 1 / 2 then fl + 1
                 else if even fl then fl else fl + 1) / 1000)"

definition analyze_confidence_scores :: "field list \<Rightarrow> exn + confidence_analysis" where
  "analyze_confidence_scores extracted_fields =
     (case low_confidence_loop extracted_fields of
        Inl e \<Rightarrow> Inl e
      | Inr low \<Rightarrow>
          (case confidences_loop extracted_fields of
             Inl e \<Rightarrow> Inl e
           | Inr confidences \<Rightarrow>
               (let avg_confidence = average confidences;
                    level = (if avg_confidence < 60 / 100 \<or> length low \<ge> 3 then ''high''
                             else if avg_confidence < 75 / 100 \<or> low \<noteq> [] then ''medium''
                             else ''low'')
                in Inr \<lparr>average_confidence = round3 avg_confidence,
                        low_confidence_fields = low,
                        total_low_confidence = length low,
                        conf_risk_level = level\<rparr>)))"

text \<open>The dictionary \<open>risk_scores\<close> of \<open>perform_full_analysis\<close> and the sum of its values.\<close>

record risk_scores =
  score_duplicate :: nat
  score_metadata :: nat
  score_consistency :: nat
  score_confidence :: nat

definition risk_scores_of ::
  "duplicate_info option \<Rightarrow> metadata_analysis \<Rightarrow> consistency_check \<Rightarrow> confidence_analysis
   \<Rightarrow> risk_scores" where
  "risk_scores_of duplicate_check md cons conf =
     \<lparr>score_duplicate = (if duplicate_check \<noteq> None then 3 else 0),
      score_metadata = (if meta_risk_level md = ''high'' then 2
                        else if meta_risk_level md = ''medium'' then 1 else 0),
      score_consistency = (if cons_risk_level cons = ''high'' then 3
                           else if cons_risk_level cons = ''medium'' then 1 else 0),
      score_confidence = (if conf_risk_level conf = ''high'' then 2
                          else if conf_risk_level conf = ''medium'' then 1 else 0)\<rparr>"

definition sum_values :: "risk_scores \<Rightarrow> nat" where
  "sum_values rs = score_duplicate rs + score_metadata rs + score_consistency rs
                   + score_confidence rs"

text \<open>The overall level and the recommendation for a total score.\<close>

definition overall_risk :: "nat \<Rightarrow> string \<times> string" where
  "overall_risk total_risk_score =
     (if total_risk_score \<ge> 6
      then (''high'', ''Manual review required - Multiple fraud indicators detected'')
      else if total_risk_score \<ge> 3
      then (''medium'', ''Review recommended - Some fraud indicators present'')
      else (''low'', ''Document appears legitimate''))"

definition all_flags_of ::
  "duplicate_info option \<Rightarrow> metadata_analysis \<Rightarrow> consistency_check \<Rightarrow> confidence_analysis
   \<Rightarrow> string list" where
  "all_flags_of duplicate_check md cons conf =
     (if duplicate_check \<noteq> None then [''Duplicate document detected''] else [])
     @ manipulation_indicators md
     @ map issue_name (consistency_issues cons)
     @ (if low_confidence_fields conf \<noteq> []
        then [str_nat (length (low_confidence_fields conf)) @ '' fields with low confidence'']
        else [])"

text \<open>
  \<open>perform_full_analysis\<close>. The four analyses run in the order of the source, and the
  first exception leaves the method.
\<close>

definition perform_full_analysis ::
  "fraud_env \<Rightarrow> string \<Rightarrow> string \<Rightarrow> int \<Rightarrow> field list \<Rightarrow> job list \<Rightarrow> exn + report" where
  "perform_full_analysis env file_path h uid extracted_fields db_jobs =
     (let duplicate_check = check_duplicate h uid db_jobs;
          md = analyze_image_metadata env file_path
      in case check_text_consistency env extracted_fields of
           Inl e \<Rightarrow> Inl e
         | Inr cons \<Rightarrow>
             (case analyze_confidence_scores extracted_fields of
                Inl e \<Rightarrow> Inl e
              | Inr conf \<Rightarrow>
                  (let total_risk_score = sum_values (risk_scores_of duplicate_check md cons conf);
                       all_flags = all_flags_of duplicate_check md cons conf
                   in Inr \<lparr>overall_risk_level = fst (overall_risk total_risk_score),
                           risk_score = total_risk_score,
                           max_risk_score = 9,
                           recommendation = snd (overall_risk total_risk_score),
                           flags = all_flags,
                           total_flags = length all_flags,
                           duplicate_detection = duplicate_check,
                           metadata_detail = md,
                           consistency_detail = cons,
                           confidence_detail = conf,
                           timestamp = utcnow env\<rparr>)))"

section \<open>Worker task (workers/tasks.py)\<close>

text \<open>The persistent store: the rows of the jobs and of the extracted fields.\<close>

record db =
  db_jobs :: "job list"
  db_fields :: "extracted_field list"

text \<open>
  What the task reaches outside the store: the services of the processor and of the fraud
  analysis, the download from storage to a local path, the bytes of a local file with
  their SHA-256 digest, the clock, and Python's \<open>str\<close> on a float and on a parsed value
  that is not a string. \<open>store_key\<close> is the text the store keeps for a field name that is
  not a string. The removal of the temporary file is not part of the model.
\<close>

record worker_env =
  processor :: proc_env
  fraud :: fraud_env
  UPLOAD_TEMP_DIR :: string
  download_file :: "string \<Rightarrow> string \<Rightarrow> exn option"
  read_bytes :: "string \<Rightarrow> exn + string"
  sha256_hexdigest :: "string \<Rightarrow> string"
  clock :: nat
  float_str :: "rat \<Rightarrow> string"
  py_str :: "json \<Rightarrow> string"
  store_key :: "json \<Rightarrow> string"











text \<open>An assignment to the attributes of the job, committed.\<close>

definition update_job :: "db \<Rightarrow> int \<Rightarrow> (job \<Rightarrow> job) \<Rightarrow> db" where
  "update_job d jid f = d\<lparr>db_jobs := map (\<lambda>j. if job_id j = jid then f j else j) (db_jobs d)\<rparr>"





section \<open>Example inputs\<close>

text \<open>A page with no text and no image; an environment in which no image can be decoded.\<close>

definition blank_page :: pdf_page where
  "blank_page = \<lparr>page_text = [], page_images = []\<rparr>"


text \<open>An environment in which image 1 is a 300 by 400 RGB image and no other image decodes.\<close>

definition photo :: pil_image where
  "photo = \<lparr>width = 300, height = 400, mode = ''RGB''\<rparr>"

definition one_photo :: pdf_env where
  "one_photo = \<lparr>open_image = (\<lambda>x. if x = 1 then Inr photo
                                     else Inl (OtherError ''cannot identify image file'')),
                 convert_rgb = (\<lambda>i. Inr i)\<rparr>"

text \<open>
  An extraction service that answers every prompt with a fenced JSON object holding only a
  confidence, and \<open>json.loads\<close> on the texts used here.
\<close>

definition confidence_only :: string where
  "confidence_only = ''{'' @ [CHR 0x22] @ ''confidence'' @ [CHR 0x22] @ '': 0.9999999999999999}''"

definition sample_loads :: "string \<Rightarrow> exn + json" where
  "sample_loads s =
     (if s = confidence_only then Inr (JObj [(''confidence'', JNum 0.9999999999999999)])
      else if s = ''{}'' then Inr (JObj [])
      else Inl (JSONDecodeError ''Expecting value: line 1 column 1 (char 0)''))"

definition fenced_response :: string where
  "fenced_response = ''```json'' @ [CHR 0x0A] @ confidence_only @ [CHR 0x0A] @ ''```''"

definition fenced_service :: gemini_env where
  "fenced_service =
     \<lparr>generate_content = (\<lambda>p. Inr fenced_response),
      json_loads = sample_loads,
      FIELD_EXTRACTION_PROMPT = ''Return ONLY the JSON object, nothing else.''\<rparr>"

text \<open>
  An OCR engine that reads one word with confidence 90 and reports the row without text
  by the number -1, as pytesseract does when it converts the columns of the TSV output
  to \<open>int\<close>; and one that reports the same rows as the strings of the TSV output.
\<close>

definition int_engine :: ocr_engine where
  "int_engine = \<lparr>image_to_string = (\<lambda>img lang config. Inr (''Invoice'' @ [CHR 0x0A])),
                  image_to_data = (\<lambda>img lang config. Inr [PNum (- 1), PNum 90])\<rparr>"

definition str_engine :: ocr_engine where
  "str_engine = \<lparr>image_to_string = (\<lambda>img lang config. Inr (''Invoice'' @ [CHR 0x0A])),
                  image_to_data = (\<lambda>img lang config. Inr [PStr ''-1'', PStr ''90''])\<rparr>"

text \<open>Extracted fields of an invoice: the three amounts, each with a confidence.\<close>

definition amount_field :: "string \<Rightarrow> string \<Rightarrow> pyval \<Rightarrow> field" where
  "amount_field name v conf =
     \<lparr>field_name = Some name, current_value = Some v, field_confidence = conf,
      extraction_confidence = PNone\<rparr>"

definition amount_fields :: "string \<Rightarrow> string \<Rightarrow> string \<Rightarrow> pyval \<Rightarrow> field list" where
  "amount_fields subtotal_v tax_v total_v conf =
     [amount_field ''invoice_subtotal'' subtotal_v conf,
      amount_field ''invoice_tax'' tax_v conf,
      amount_field ''invoice_total'' total_v conf]"

text \<open>
  The surroundings of an analysis: an image file whose EXIF data name an editor and hold no
  \<open>DateTime\<close>, a PDF without metadata, and a job of user 7 completed earlier with the hash
  \<open>ab12\<close>.
\<close>

definition edited_photo :: fraud_env where
  "edited_photo =
     \<lparr>read_exif = (\<lambda>path. ([(''Software'', ''Adobe Photoshop 25.0'')], None)),
      read_pdf_metadata = (\<lambda>path. ([], None)),
      strptime = (\<lambda>s fmt. None),
      now = 0,
      utcnow = 0\<rparr>"

definition earlier_job :: job where
  "earlier_job =
     \<lparr>job_id = 1, user_id = 7, filename = ''scan.jpg'', s3_path = ''uploads/7/scan.jpg'',
      file_hash = Some ''ab12'', status = COMPLETED, error_message = None,
      fraud_analysis = None, created_at = 100, completed_at = Some 160\<rparr>"

text \<open>
  The local path of an uploaded image, and three lists of extracted fields: amounts that do
  not add up, read with confidence 0.55; amounts that do not add up with a tax of zero;
  and amounts whose confidence is the label \<open>high\<close>.
\<close>

definition scan_path :: string where
  "scan_path = ''/tmp/job_2_scan.jpg''"

definition mismatch_invoice :: "field list" where
  "mismatch_invoice = amount_fields ''1000'' ''180'' ''1300'' (PNum 0.55)"

definition zero_tax_invoice :: "field list" where
  "zero_tax_invoice = amount_fields ''1000'' ''0'' ''1300'' (PNum 0.9)"

definition labelled_invoice :: "field list" where
  "labelled_invoice = amount_fields ''1000'' ''180'' ''1180'' (PStr ''high'')"









text \<open>
  Two scanned documents without text: one page holding a broken image and the photo, and
  eight pages of which the first holds the photo.
\<close>

definition short_scan :: pdf_doc where
  "short_scan = [\<lparr>page_text = ''Invoice'', page_images = [2, 1]\<rparr>]"

definition long_scan :: pdf_doc where
  "long_scan = \<lparr>page_text = [], page_images = [1]\<rparr> # replicate 7 blank_page"

section \<open>The classifier\<close>

lemma extract_images_length:
  "length (extract_images cl env xs acc)
     = length acc + length (filter (\<lambda>x. case extract_one cl env x of Inr (Some img) \<Rightarrow> True | _ \<Rightarrow> False) xs)"
  by (induction xs arbitrary: acc) (auto split: sum.splits option.splits)

lemma extract_pages_length:
  "length (extract_pages cl env doc acc)
     = length acc + length (filter (\<lambda>x. case extract_one cl env x of Inr (Some img) \<Rightarrow> True | _ \<Rightarrow> False)
                              (concat (map page_images doc)))"
  by (induction doc arbitrary: acc) (auto simp: extract_images_length)

lemma classify_type_image_only:
  assumes "int n \<le> image_threshold cl" "\<not> txt"
  shows "classify_type cl n txt len pages = (if pages \<le> 5 then IMAGE_LIGHT else IMAGE_HEAVY)"
  using assms by (simp add: classify_type_def)

text \<open>
  Claim C3. For a document whose embedded images that decode and pass the filter number at
  most the threshold, and whose text, stripped, has at most 50 characters, \<open>classify_pdf\<close>
  returns a classification with that image count, no text and the page count of the
  document, of type \<open>IMAGE_LIGHT\<close> when the document has at most 5 pages and
  \<open>IMAGE_HEAVY\<close> when it has more.
\<close>

theorem image_only_routing:
  assumes "int (length (filter (\<lambda>x. case extract_one cl env x of Inr (Some img) \<Rightarrow> True | _ \<Rightarrow> False)
                          (concat (map page_images doc)))) \<le> image_threshold cl"
    and "length (strip (concat (map page_text doc))) \<le> 50"
  shows "\<exists>c. classify_pdf cl env (Inr doc) = Inr c
           \<and> page_count c = length doc
           \<and> image_count c = length (filter (\<lambda>x. case extract_one cl env x of
                                                     Inr (Some img) \<Rightarrow> True | _ \<Rightarrow> False)
                                        (concat (map page_images doc)))
           \<and> \<not> has_text c
           \<and> pdf_type c = (if length doc \<le> 5 then IMAGE_LIGHT else IMAGE_HEAVY)"
proof -
  let ?n = "length (filter (\<lambda>x. case extract_one cl env x of Inr (Some img) \<Rightarrow> True | _ \<Rightarrow> False)
                          (concat (map page_images doc)))"
  have n: "length (extract_pages cl env doc []) = ?n"
    by (simp add: extract_pages_length)
  have t: "\<not> (50 < length (strip (concat (map page_text doc))))"
    using assms(2) by simp
  have "classify_type cl ?n (50 < length (strip (concat (map page_text doc))))
          (length (strip (concat (map page_text doc)))) (length doc)
        = (if length doc \<le> 5 then IMAGE_LIGHT else IMAGE_HEAVY)"
    by (rule classify_type_image_only[OF assms(1) t])
  thus ?thesis
    using t by (simp add: classify_pdf_def classify_doc_def Let_def n)
qed


lemma one_photo_kept:
  "(case extract_one get_pdf_classifier one_photo x of Inr (Some img) \<Rightarrow> True | _ \<Rightarrow> False)
     \<longleftrightarrow> x = 1"
  by (simp add: extract_one_def one_photo_def photo_def is_content_image_def
      get_pdf_classifier_def PDFClassifier_init_def)

lemma short_scan_facts:
  "length (filter (\<lambda>x. case extract_one get_pdf_classifier one_photo x of
                          Inr (Some img) \<Rightarrow> True | _ \<Rightarrow> False)
             (concat (map page_images short_scan))) = 1"
  "length (strip (concat (map page_text short_scan))) = 7"
  "length short_scan = 1"
  by (simp_all add: one_photo_kept short_scan_def strip_def is_space_def)

lemma long_scan_facts:
  "length (filter (\<lambda>x. case extract_one get_pdf_classifier one_photo x of
                          Inr (Some img) \<Rightarrow> True | _ \<Rightarrow> False)
             (concat (map page_images long_scan))) = 1"
  "length (strip (concat (map page_text long_scan))) = 0"
  "length long_scan = 8"
  by (simp_all add: one_photo_kept long_scan_def blank_page_def strip_def)

theorem image_only_routing_witness:
  "int (length (filter (\<lambda>x. case extract_one get_pdf_classifier one_photo x of
                               Inr (Some img) \<Rightarrow> True | _ \<Rightarrow> False)
                  (concat (map page_images short_scan)))) \<le> image_threshold get_pdf_classifier
   \<and> length (strip (concat (map page_text short_scan))) \<le> 50
   \<and> (\<exists>c. classify_pdf get_pdf_classifier one_photo (Inr short_scan) = Inr c
          \<and> page_count c = 1 \<and> image_count c = 1 \<and> \<not> has_text c \<and> pdf_type c = IMAGE_LIGHT)
   \<and> int (length (filter (\<lambda>x. case extract_one get_pdf_classifier one_photo x of
                               Inr (Some img) \<Rightarrow> True | _ \<Rightarrow> False)
                  (concat (map page_images long_scan)))) \<le> image_threshold get_pdf_classifier
   \<and> length (strip (concat (map page_text long_scan))) \<le> 50
   \<and> (\<exists>c. classify_pdf get_pdf_classifier one_photo (Inr long_scan) = Inr c
          \<and> page_count c = 8 \<and> image_count c = 1 \<and> \<not> has_text c \<and> pdf_type c = IMAGE_HEAVY)"
proof -
  have thr: "image_threshold get_pdf_classifier = 2"
    by (simp add: get_pdf_classifier_def PDFClassifier_init_def)
  have s1: "int (length (filter (\<lambda>x. case extract_one get_pdf_classifier one_photo x of
                               Inr (Some img) \<Rightarrow> True | _ \<Rightarrow> False)
                  (concat (map page_images short_scan)))) \<le> image_threshold get_pdf_classifier"
    by (simp add: short_scan_facts thr)
  have s2: "length (strip (concat (map page_text short_scan))) \<le> 50"
    by (simp add: short_scan_facts)
  have l1: "int (length (filter (\<lambda>x. case extract_one get_pdf_classifier one_photo x of
                               Inr (Some img) \<Rightarrow> True | _ \<Rightarrow> False)
                  (concat (map page_images long_scan)))) \<le> image_threshold get_pdf_classifier"
    by (simp add: long_scan_facts thr)
  have l2: "length (strip (concat (map page_text long_scan))) \<le> 50"
    by (simp add: long_scan_facts)
  show ?thesis
    using image_only_routing[OF s1 s2] image_only_routing[OF l1 l2] s1 s2 l1 l2
    by (simp add: short_scan_facts long_scan_facts)
qed

text \<open>
  Claim C4, as stated: under the defaults an image of 160 by 250, of area exactly 40000,
  would pass the filter. It does not: its width is below the minimum width.
\<close>

theorem filter_160_250_counterexample:
  "\<not> is_content_image 160 250 (min_image_width get_pdf_classifier)
       (min_image_height get_pdf_classifier) (min_image_area get_pdf_classifier)"
  by (simp add: is_content_image_def get_pdf_classifier_def PDFClassifier_init_def)

text \<open>
  Claim C4, amended. The filter is the conjunction of the three comparisons, with the
  defaults 200, 200 and 40000; under the defaults 200 by 200 passes, 199 by 200, 200 by 199
  and 160 by 250 do not, and the only image of area exactly 40000 that passes is 200 by
  200.
\<close>

theorem image_filter_defaults:
  "(is_content_image w h min_w min_h min_area
      \<longleftrightarrow> w \<ge> min_w \<and> h \<ge> min_h \<and> w * h \<ge> min_area)
   \<and> min_image_width get_pdf_classifier = 200
   \<and> min_image_height get_pdf_classifier = 200
   \<and> min_image_area get_pdf_classifier = 40000
   \<and> is_content_image 200 200 200 200 40000
   \<and> \<not> is_content_image 199 200 200 200 40000
   \<and> \<not> is_content_image 200 199 200 200 40000
   \<and> \<not> is_content_image 160 250 200 200 40000
   \<and> (is_content_image w h 200 200 40000 \<and> w * h = 40000 \<longrightarrow> w = 200 \<and> h = 200)"
proof -
  have "w = 200 \<and> h = 200" if a: "200 \<le> w" "200 \<le> h" "w * h = 40000"
  proof -
    have "200 * h \<le> w * h" using a by (intro mult_right_mono) auto
    hence h: "h \<le> 200" using a by simp
    have "w * 200 \<le> w * h" using a by (intro mult_left_mono) auto
    hence "w \<le> 200" using a by simp
    with h a show ?thesis by simp
  qed
  thus ?thesis
    by (auto simp: is_content_image_def get_pdf_classifier_def PDFClassifier_init_def)
qed

theorem image_filter_defaults_witness:
  "is_content_image 200 200 200 200 40000 \<and> (200::int) * 200 = 40000"
  using image_filter_defaults[of 200 200 200 200 40000]
  by simp

lemma extract_images_append:
  "extract_images cl env (xs @ ys) acc = extract_images cl env ys (extract_images cl env xs acc)"
  by (induction xs arbitrary: acc) (auto split: sum.splits option.splits)

lemma extract_pages_append:
  "extract_pages cl env (ps @ qs) acc = extract_pages cl env qs (extract_pages cl env ps acc)"
  by (induction ps arbitrary: acc) auto

lemma extract_images_skip:
  assumes "extract_one cl env x = Inl e"
  shows "extract_images cl env (xs @ x # ys) acc = extract_images cl env (xs @ ys) acc"
  using assms by (simp add: extract_images_append)

lemma extract_pages_skip:
  assumes "extract_one cl env x = Inl e"
  shows "extract_pages cl env (ps @ p\<lparr>page_images := xs @ x # ys\<rparr> # qs) acc
       = extract_pages cl env (ps @ p\<lparr>page_images := xs @ ys\<rparr> # qs) acc"
  using assms by (simp add: extract_pages_append extract_images_skip)

lemma extract_one_open_fails:
  "open_image env x = Inl e \<Longrightarrow> extract_one cl env x = Inl e"
  by (simp add: extract_one_def)

text \<open>
  Claim C10. When decoding or measuring one embedded image raises, the classification
  raises nothing and is the classification of the document without that image: the image
  is in neither \<open>images\<close> nor \<open>image_count\<close>, and the text and the other images are used.
\<close>

theorem failing_image_skipped:
  assumes "open_image env x = Inl e"
  shows "classify_pdf cl env (Inr (ps @ p\<lparr>page_images := xs @ x # ys\<rparr> # qs))
       = Inr (classify_doc cl env (ps @ p\<lparr>page_images := xs @ ys\<rparr> # qs))"
  using extract_pages_skip[OF extract_one_open_fails[OF assms]]
  by (simp add: classify_pdf_def classify_doc_def Let_def)

lemma photo_doc:
  "classify_doc get_pdf_classifier one_photo [\<lparr>page_text = ''Invoice'', page_images = [Suc 0]\<rparr>] =
     \<lparr>pdf_type = IMAGE_LIGHT, page_count = 1, image_count = 1, has_text = False,
      text_length = 7, images = [photo], text_content = ''Invoice''\<rparr>"
  by (simp add: classify_doc_def Let_def classify_type_def get_pdf_classifier_def
      PDFClassifier_init_def strip_def is_space_def extract_one_def one_photo_def photo_def
      is_content_image_def)

theorem failing_image_skipped_witness:
  "open_image one_photo 2 = Inl (OtherError ''cannot identify image file'')
   \<and> classify_pdf get_pdf_classifier one_photo
        (Inr [\<lparr>page_text = ''Invoice'', page_images = [2, 1]\<rparr>])
     = Inr \<lparr>pdf_type = IMAGE_LIGHT, page_count = 1, image_count = 1, has_text = False,
            text_length = 7, images = [photo], text_content = ''Invoice''\<rparr>"
proof -
  have h: "open_image one_photo 2 = Inl (OtherError ''cannot identify image file'')"
    by (simp add: one_photo_def)
  have "classify_pdf get_pdf_classifier one_photo
          (Inr ([] @ \<lparr>page_text = ''Invoice'', page_images = []\<rparr>\<lparr>page_images := [] @ 2 # [1]\<rparr> # []))
        = Inr (classify_doc get_pdf_classifier one_photo
          ([] @ \<lparr>page_text = ''Invoice'', page_images = []\<rparr>\<lparr>page_images := [] @ [1]\<rparr> # []))"
    by (rule failing_image_skipped[OF h])
  then show ?thesis
    using h by (simp add: photo_doc)
qed

section \<open>The extraction service\<close>

lemma failure_not_success [simp]: "\<not> success (failure_result err raw meth)"
  by (simp add: failure_result_def)

lemma call_service_success:
  assumes "call_service env p meth build = Inr r" and "success r"
  shows "\<exists>txt res. generate_content env p = Inr txt
           \<and> json_loads env (strip_code_fence txt) = Inr res \<and> build res = Inr r"
  using assms
  by (auto simp: call_service_def Let_def split: sum.splits exn.splits)

lemma text_result_Inr:
  assumes "text_result res oconf = Inr r"
  shows "\<exists>items api. res = JObj items
           \<and> (case map_of items ''confidence'' of None \<Rightarrow> api = 9 / 10 | Some v \<Rightarrow> json_num v = Some api)
           \<and> api_confidence r = Some api \<and> ocr_confidence r = oconf
           \<and> confidence r = Some (case oconf of Some oc \<Rightarrow> (oc + api) / 2 | None \<Rightarrow> api)"
proof (cases res)
  case (JObj items)
  with assms show ?thesis
    by (auto simp: text_result_def json_get_def Let_def split: sum.splits option.splits)
qed (insert assms, auto simp: text_result_def json_get_def)

text \<open>
  Claim C2. A successful result of \<open>extract_fields_from_text\<close> carries as confidence the
  mean of the OCR confidence and the confidence the service reported when an OCR
  confidence was passed, and the reported confidence itself otherwise; the reported
  confidence is the number under \<open>confidence\<close> in the parsed response, or 0.9 when the key
  is missing. (With 0.8 and 0.9999999999999999 the mean is within 1e-6 of 0.9: see the
  witness.)
\<close>

theorem combined_confidence:
  assumes "extract_fields_from_text env body oconf = Inr r" and "success r"
  shows "\<exists>p txt items api.
           generate_content env p = Inr txt
           \<and> json_loads env (strip_code_fence txt) = Inr (JObj items)
           \<and> (case map_of items ''confidence'' of
                 None \<Rightarrow> api = 9 / 10
               | Some v \<Rightarrow> json_num v = Some api)
           \<and> api_confidence r = Some api
           \<and> ocr_confidence r = oconf
           \<and> confidence r = Some (case oconf of Some oc \<Rightarrow> (oc + api) / 2 | None \<Rightarrow> api)"
proof -
  from assms obtain p tx res where
    g: "generate_content env p = Inr tx" "json_loads env (strip_code_fence tx) = Inr res"
    and t: "text_result res oconf = Inr r"
    unfolding extract_fields_from_text_def Let_def
    by (blast dest: call_service_success)
  from text_result_Inr[OF t] g show ?thesis by blast
qed



lemma fenced_strip: "strip_code_fence fenced_response = confidence_only"
  by (simp add: strip_code_fence_def fenced_response_def confidence_only_def strip_def
      is_space_def startswith_def endswith_def Let_def)

lemma fenced_result:
  "extract_fields_from_text fenced_service ''Total: 5'' (Some (8 / 10)) =
     Inr \<lparr>success = True, error = None, raw_response = None,
          document_type = Some (JStr ''Unknown''),
          confidence = Some (17999999999999999 / 20000000000000000),
          extracted_data = Some (JArr []), summary = Some (JStr []),
          extraction_method = ''gemini_text'', ocr_confidence = Some (8 / 10),
          api_confidence = Some 0.9999999999999999, metadata = None\<rparr>"
  by (simp add: extract_fields_from_text_def call_service_def fenced_service_def Let_def
      fenced_strip sample_loads_def text_result_def json_get_def)

theorem combined_confidence_witness:
  "extract_fields_from_text fenced_service ''Total: 5'' (Some (8 / 10)) =
     Inr \<lparr>success = True, error = None, raw_response = None,
          document_type = Some (JStr ''Unknown''),
          confidence = Some (17999999999999999 / 20000000000000000),
          extracted_data = Some (JArr []), summary = Some (JStr []),
          extraction_method = ''gemini_text'', ocr_confidence = Some (8 / 10),
          api_confidence = Some 0.9999999999999999, metadata = None\<rparr>
   \<and> (17999999999999999 / 20000000000000000 :: rat) = (8 / 10 + 0.9999999999999999) / 2
   \<and> \<bar>(17999999999999999 / 20000000000000000 :: rat) - 9 / 10\<bar> \<le> 1 / 10 ^ 6"
  using combined_confidence[OF fenced_result] fenced_result
  by simp

section \<open>The fraud analysis\<close>

lemma check_duplicate_iff:
  "check_duplicate h uid jobs \<noteq> None \<longleftrightarrow>
     (\<exists>j \<in> set jobs. user_id j = uid \<and> file_hash j = Some h \<and> status j = COMPLETED)"
proof -
  have "(filter (\<lambda>j. user_id j = uid \<and> file_hash j = Some h \<and> status j = COMPLETED) jobs = [])
        \<longleftrightarrow> \<not> (\<exists>j \<in> set jobs. user_id j = uid \<and> file_hash j = Some h \<and> status j = COMPLETED)"
    by (simp add: filter_empty_conv)
  thus ?thesis
    by (auto simp: check_duplicate_def split: list.splits)
qed

lemma indicators_fixed:
  "set (manipulation_indicators (analyze_image_metadata env p))
     \<subseteq> {''Unable to extract metadata'', ''Document edited with image editing software'',
         ''Missing creation timestamp''}"
  by (auto simp: analyze_image_metadata_def Let_def split: prod.splits option.splits if_splits)

lemma future_date_names:
  "list_all (\<lambda>i. issue_name i = ''Future invoice date'') (future_date_issues env d)"
  by (simp add: future_date_issues_def split: option.split)

lemma date_order_names:
  "list_all (\<lambda>i. issue_name i = ''Due date before invoice date'') (date_order_issues env d d')"
  by (simp add: date_order_issues_def split: option.split)

lemma total_mismatch_names:
  "list_all (\<lambda>i. issue_name i = ''Total amount mismatch'') (total_mismatch_issues t s x)"
  by (simp add: total_mismatch_issues_def Let_def split: option.split)

lemma suspicious_names:
  "list_all (\<lambda>i. issue_name i = ''Suspicious amount pattern'') (suspicious_issues d)"
  by (induction d) (auto simp: suspicious_issues_def suspicious_amounts_def)

lemma consistency_Inr:
  assumes "check_text_consistency env fs = Inr cons"
  shows "\<exists>d. build_field_dict fs [] = Inr d
          \<and> consistency_issues cons =
              total_mismatch_issues (extract_amount (dict_get d ''invoice_total''))
                (extract_amount (dict_get d ''invoice_subtotal''))
                (extract_amount (dict_get d ''invoice_tax''))
              @ future_date_issues env (dict_get d ''invoice_date'')
              @ date_order_issues env (dict_get d ''invoice_date'') (dict_get d ''invoice_due_date'')
              @ suspicious_issues d
          \<and> cons_risk_level cons =
              (if list_ex (\<lambda>i. severity i = ''high'') (consistency_issues cons) then ''high''
               else if consistency_issues cons \<noteq> [] then ''medium'' else ''low'')"
proof (cases "build_field_dict fs []")
  case (Inl e)
  with assms show ?thesis by (simp add: check_text_consistency_def)
next
  case (Inr d)
  with assms have "cons = \<lparr>consistency_issues = total_mismatch_issues (extract_amount (dict_get d ''invoice_total''))
                (extract_amount (dict_get d ''invoice_subtotal''))
                (extract_amount (dict_get d ''invoice_tax''))
              @ future_date_issues env (dict_get d ''invoice_date'')
              @ date_order_issues env (dict_get d ''invoice_date'') (dict_get d ''invoice_due_date'')
              @ suspicious_issues d,
           total_issues = length (total_mismatch_issues (extract_amount (dict_get d ''invoice_total''))
                (extract_amount (dict_get d ''invoice_subtotal''))
                (extract_amount (dict_get d ''invoice_tax''))
              @ future_date_issues env (dict_get d ''invoice_date'')
              @ date_order_issues env (dict_get d ''invoice_date'') (dict_get d ''invoice_due_date'')
              @ suspicious_issues d),
           cons_risk_level = (if list_ex (\<lambda>i. severity i = ''high'') (total_mismatch_issues (extract_amount (dict_get d ''invoice_total''))
                (extract_amount (dict_get d ''invoice_subtotal''))
                (extract_amount (dict_get d ''invoice_tax''))
              @ future_date_issues env (dict_get d ''invoice_date'')
              @ date_order_issues env (dict_get d ''invoice_date'') (dict_get d ''invoice_due_date'')
              @ suspicious_issues d) then ''high''
               else if (total_mismatch_issues (extract_amount (dict_get d ''invoice_total''))
                (extract_amount (dict_get d ''invoice_subtotal''))
                (extract_amount (dict_get d ''invoice_tax''))
              @ future_date_issues env (dict_get d ''invoice_date'')
              @ date_order_issues env (dict_get d ''invoice_date'') (dict_get d ''invoice_due_date'')
              @ suspicious_issues d) \<noteq> [] then ''medium'' else ''low'')\<rparr>"
    by (simp add: check_text_consistency_def Let_def)
  with Inr show ?thesis by simp
qed

lemma list_all_weaken:
  "list_all P xs \<Longrightarrow> (\<And>x. P x \<Longrightarrow> Q x) \<Longrightarrow> list_all Q xs"
  by (induction xs) auto

lemma issue_names_fixed:
  assumes "check_text_consistency env fs = Inr cons"
  shows "list_all (\<lambda>i. issue_name i \<noteq> ''Duplicate document detected'') (consistency_issues cons)"
proof -
  from consistency_Inr[OF assms] obtain d where
    i: "consistency_issues cons =
              total_mismatch_issues (extract_amount (dict_get d ''invoice_total''))
                (extract_amount (dict_get d ''invoice_subtotal''))
                (extract_amount (dict_get d ''invoice_tax''))
              @ future_date_issues env (dict_get d ''invoice_date'')
              @ date_order_issues env (dict_get d ''invoice_date'') (dict_get d ''invoice_due_date'')
              @ suspicious_issues d"
    by blast
  have a: "list_all (\<lambda>i. issue_name i \<noteq> ''Duplicate document detected'') (total_mismatch_issues t s x)"
    for t s x by (rule list_all_weaken[OF total_mismatch_names]) simp
  have b: "list_all (\<lambda>i. issue_name i \<noteq> ''Duplicate document detected'') (future_date_issues env x)"
    for x by (rule list_all_weaken[OF future_date_names]) simp
  have c: "list_all (\<lambda>i. issue_name i \<noteq> ''Duplicate document detected'') (date_order_issues env x y)"
    for x y by (rule list_all_weaken[OF date_order_names]) simp
  have e: "list_all (\<lambda>i. issue_name i \<noteq> ''Duplicate document detected'') (suspicious_issues x)"
    for x by (rule list_all_weaken[OF suspicious_names]) simp
  show ?thesis
    unfolding i by (simp only: list_all_append a b c e simp_thms)
qed

lemma count_flag_last:
  "last (str_nat n @ '' fields with low confidence'') = CHR ''e''"
  by simp

lemma count_flag_neq:
  "str_nat n @ '' fields with low confidence'' \<noteq> ''Duplicate document detected''"
proof
  assume "str_nat n @ '' fields with low confidence'' = ''Duplicate document detected''"
  hence "last (str_nat n @ '' fields with low confidence'') = last ''Duplicate document detected''"
    by simp
  thus False by simp
qed

lemma duplicate_flag_iff:
  assumes "check_text_consistency env fs = Inr cons"
  shows "''Duplicate document detected''
           \<in> set (all_flags_of dup (analyze_image_metadata env p) cons conf)
         \<longleftrightarrow> dup \<noteq> None"
proof -
  have a: "''Duplicate document detected'' \<notin> set (manipulation_indicators (analyze_image_metadata env p))"
    using indicators_fixed[of env p] by auto
  have b: "''Duplicate document detected'' \<notin> issue_name ` set (consistency_issues cons)"
    using issue_names_fixed[OF assms] by (auto simp: list_all_iff)
  show ?thesis
    using a b count_flag_neq by (auto simp: all_flags_of_def)
qed

lemma full_analysis_Inr:
  assumes "perform_full_analysis env p h uid fs jobs = Inr r"
  shows "\<exists>cons conf. check_text_consistency env fs = Inr cons
           \<and> analyze_confidence_scores fs = Inr conf
           \<and> duplicate_detection r = check_duplicate h uid jobs
           \<and> metadata_detail r = analyze_image_metadata env p
           \<and> consistency_detail r = cons \<and> confidence_detail r = conf
           \<and> risk_score r = sum_values (risk_scores_of (check_duplicate h uid jobs)
                                (analyze_image_metadata env p) cons conf)
           \<and> flags r = all_flags_of (check_duplicate h uid jobs)
                                (analyze_image_metadata env p) cons conf
           \<and> overall_risk_level r = fst (overall_risk (risk_score r))
           \<and> max_risk_score r = 9"
  using assms
  by (auto simp: perform_full_analysis_def Let_def split: sum.splits)

text \<open>
  Claim C5. The duplicate check finds a job exactly when the store holds a completed job
  of the same user with the same file hash; the duplicate sub-score is 3 then and 0
  otherwise, and a report of the full analysis carries the flag
  \<open>Duplicate document detected\<close> exactly then. A completed job of another user with the
  same hash does not count.
\<close>

theorem duplicate_sub_analysis:
  "(check_duplicate h uid jobs \<noteq> None \<longleftrightarrow>
      (\<exists>j \<in> set jobs. user_id j = uid \<and> file_hash j = Some h \<and> status j = COMPLETED))
   \<and> score_duplicate (risk_scores_of (check_duplicate h uid jobs) md cons conf)
       = (if \<exists>j \<in> set jobs. user_id j = uid \<and> file_hash j = Some h \<and> status j = COMPLETED
          then 3 else 0)
   \<and> (perform_full_analysis env p h uid fs jobs = Inr r \<longrightarrow>
        duplicate_detection r = check_duplicate h uid jobs
        \<and> (''Duplicate document detected'' \<in> set (flags r) \<longleftrightarrow>
             (\<exists>j \<in> set jobs. user_id j = uid \<and> file_hash j = Some h \<and> status j = COMPLETED)))"
proof (intro conjI impI)
  show "check_duplicate h uid jobs \<noteq> None \<longleftrightarrow>
      (\<exists>j \<in> set jobs. user_id j = uid \<and> file_hash j = Some h \<and> status j = COMPLETED)"
    by (rule check_duplicate_iff)
  show "score_duplicate (risk_scores_of (check_duplicate h uid jobs) md cons conf)
       = (if \<exists>j \<in> set jobs. user_id j = uid \<and> file_hash j = Some h \<and> status j = COMPLETED
          then 3 else 0)"
    using check_duplicate_iff[of h uid jobs] by (simp add: risk_scores_of_def)
next
  assume r: "perform_full_analysis env p h uid fs jobs = Inr r"
  from full_analysis_Inr[OF r] obtain cons' conf' where
    c: "check_text_consistency env fs = Inr cons'"
    and d: "duplicate_detection r = check_duplicate h uid jobs"
    and f: "flags r = all_flags_of (check_duplicate h uid jobs) (analyze_image_metadata env p) cons' conf'"
    by blast
  show "duplicate_detection r = check_duplicate h uid jobs" by (rule d)
  show "''Duplicate document detected'' \<in> set (flags r) \<longleftrightarrow>
             (\<exists>j \<in> set jobs. user_id j = uid \<and> file_hash j = Some h \<and> status j = COMPLETED)"
    unfolding f duplicate_flag_iff[OF c] by (rule check_duplicate_iff)
qed

lemma analysis_returns_7:
  "\<not> isl (perform_full_analysis edited_photo scan_path ''ab12'' 7 mismatch_invoice [earlier_job])"
  by code_simp

lemma analysis_returns_8:
  "\<not> isl (perform_full_analysis edited_photo scan_path ''ab12'' 8 mismatch_invoice [earlier_job])"
  by code_simp

theorem duplicate_sub_analysis_witness:
  "(case perform_full_analysis edited_photo scan_path ''ab12'' 7 mismatch_invoice [earlier_job] of
      Inl e \<Rightarrow> False
    | Inr r \<Rightarrow> ''Duplicate document detected'' \<in> set (flags r) \<and> duplicate_detection r \<noteq> None)
   \<and> (case perform_full_analysis edited_photo scan_path ''ab12'' 8 mismatch_invoice [earlier_job] of
      Inl e \<Rightarrow> False
    | Inr r \<Rightarrow> ''Duplicate document detected'' \<notin> set (flags r) \<and> duplicate_detection r = None)
   \<and> score_duplicate (risk_scores_of (check_duplicate ''ab12'' 7 [earlier_job])
         (analyze_image_metadata edited_photo scan_path)
         \<lparr>consistency_issues = [], total_issues = 0, cons_risk_level = ''low''\<rparr>
         \<lparr>average_confidence = 0, low_confidence_fields = [], total_low_confidence = 0,
          conf_risk_level = ''low''\<rparr>) = 3
   \<and> score_duplicate (risk_scores_of (check_duplicate ''ab12'' 8 [earlier_job])
         (analyze_image_metadata edited_photo scan_path)
         \<lparr>consistency_issues = [], total_issues = 0, cons_risk_level = ''low''\<rparr>
         \<lparr>average_confidence = 0, low_confidence_fields = [], total_low_confidence = 0,
          conf_risk_level = ''low''\<rparr>) = 0"
proof -
  obtain r7 where r7: "perform_full_analysis edited_photo scan_path ''ab12'' 7 mismatch_invoice [earlier_job] = Inr r7"
    using analysis_returns_7
    by (cases "perform_full_analysis edited_photo scan_path ''ab12'' 7 mismatch_invoice [earlier_job]") auto
  obtain r8 where r8: "perform_full_analysis edited_photo scan_path ''ab12'' 8 mismatch_invoice [earlier_job] = Inr r8"
    using analysis_returns_8
    by (cases "perform_full_analysis edited_photo scan_path ''ab12'' 8 mismatch_invoice [earlier_job]") auto
  have d7: "\<exists>j \<in> set [earlier_job]. user_id j = 7 \<and> file_hash j = Some ''ab12'' \<and> status j = COMPLETED"
    by (simp add: earlier_job_def)
  have d8: "\<not> (\<exists>j \<in> set [earlier_job]. user_id j = 8 \<and> file_hash j = Some ''ab12'' \<and> status j = COMPLETED)"
    by (simp add: earlier_job_def)
  note t7 = duplicate_sub_analysis[where h = "''ab12''" and uid = 7 and jobs = "[earlier_job]"
      and env = edited_photo and p = scan_path and fs = mismatch_invoice and r = r7]
  note t8 = duplicate_sub_analysis[where h = "''ab12''" and uid = 8 and jobs = "[earlier_job]"
      and env = edited_photo and p = scan_path and fs = mismatch_invoice and r = r8]
  have a7: "''Duplicate document detected'' \<in> set (flags r7)" "duplicate_detection r7 \<noteq> None"
    using t7 r7 d7 by metis+
  have a8: "''Duplicate document detected'' \<notin> set (flags r8)" "duplicate_detection r8 = None"
    using t8 r8 d8 by metis+
  have s7: "score_duplicate (risk_scores_of (check_duplicate ''ab12'' 7 [earlier_job]) md cons conf) = 3"
    for md cons conf
    using t7[of md cons conf] d7 by (simp only: if_True)
  have s8: "score_duplicate (risk_scores_of (check_duplicate ''ab12'' 8 [earlier_job]) md cons conf) = 0"
    for md cons conf
    using t8[of md cons conf] d8 by (simp only: if_False)
  show ?thesis
    unfolding r7 r8 sum.case using a7 a8 s7 s8 by blast
qed

text \<open>
  Claim C1, at an input where it fails: a duplicate of an edited image whose amounts do not
  add up and were read with low confidence. The four sub-scores are 3, 2, 3 and 2, and the
  report carries the risk score 10 beside the maximum 9 that the report itself declares.
\<close>

theorem risk_score_exceeds_max:
  "(case perform_full_analysis edited_photo scan_path ''ab12'' 7 mismatch_invoice [earlier_job] of
      Inl e \<Rightarrow> False
    | Inr r \<Rightarrow> risk_score r = 10 \<and> max_risk_score r = 9 \<and> overall_risk_level r = ''high'')"
  by code_simp

text \<open>
  Claim C6, at an input where it fails: subtotal 1000, tax 0 and total 1300 differ by 300,
  and the consistency check reports no issue, since the tax of zero is false in the guard
  \<open>if total_amount and subtotal and tax\<close>.
\<close>

theorem zero_tax_mismatch_missed:
  "check_text_consistency edited_photo zero_tax_invoice
     = Inr \<lparr>consistency_issues = [], total_issues = 0, cons_risk_level = ''low''\<rparr>"
  by code_simp

text \<open>
  Claim C7, at an input where it fails: with the label \<open>high\<close> as confidence the first loop
  maps the label and flags nothing, and the second loop raises ValueError from
  \<open>float('high')\<close>, so the analysis does not complete.
\<close>

theorem label_confidence_raises:
  "analyze_confidence_scores labelled_invoice = Inl (ValueError (float_error ''high''))
   \<and> low_confidence_loop labelled_invoice = Inr []"
  by code_simp

text \<open>
  Claim C8, at an input where it fails: the engine reports the row without text by the
  number -1, the test \<open>conf != '-1'\<close> keeps it, and the confidence is the mean of -1 and 90
  over 100, not 0.9. With the string \<open>'-1'\<close> the row is left out.
\<close>

theorem int_sentinel_counted:
  "extract_text_from_image int_engine photo None 6 = Inr (''Invoice'', 89 / 200)
   \<and> extract_text_from_image str_engine photo None 6 = Inr (''Invoice'', 9 / 10)"
  by code_simp

section \<open>The worker task\<close>
















lemma db_fields_update [simp]: "db_fields (update_job d jid f) = db_fields d"
  by (simp add: update_job_def)








end
